theory Spec2Isabelle
  imports Main "HOL-Library.Sublist" "HOL-Library.Word"
begin

section \<open>Shader pipeline of Application.cpp\<close>

text \<open>
  The development embeds the functions of \<^verbatim>\<open>src/TheChernoOpenGL/Application.cpp\<close>:
  \<^verbatim>\<open>ParseShader\<close>, \<^verbatim>\<open>CompileShader\<close>, \<^verbatim>\<open>CreateShader\<close>, the \<^verbatim>\<open>GLCall\<close> macro with
  \<^verbatim>\<open>GLClearError\<close> and \<^verbatim>\<open>GLLogCall\<close>, and \<^verbatim>\<open>main\<close>. Strings are byte lists. Behaviour that
  C++ leaves undefined, and the breakpoint trap of \<^verbatim>\<open>__debugbreak\<close>, are values of the
  type \<open>fault\<close>, so that every such path is a branch of the model.
\<close>

datatype fault =
    IndexOutOfBounds int  \<comment> \<open>a built-in array indexed outside its bounds\<close>
  | DebugBreak            \<comment> \<open>\<^verbatim>\<open>__debugbreak()\<close> reached\<close>
  | UninitialisedRead     \<comment> \<open>a variable or buffer read before anything was stored in it\<close>
  | StackExhausted        \<comment> \<open>\<^verbatim>\<open>alloca\<close> asked for more than the stack holds\<close>
  | SignedOverflow        \<comment> \<open>\<^verbatim>\<open>++\<close> on an \<^verbatim>\<open>int\<close> that is \<^verbatim>\<open>INT_MAX\<close>\<close>
  | NullPointer           \<comment> \<open>a null \<^verbatim>\<open>char\<close> pointer written to a stream\<close>

subsection \<open>Strings and streams of the C++ library\<close>

definition newline :: char where
  "newline = CHR 0x0A"

text \<open>\<^verbatim>\<open>std::endl\<close> written to a stream: the newline character (and a flush).\<close>

definition endl :: string where
  "endl = [newline]"

text \<open>
  \<^verbatim>\<open>std::string::npos\<close> and \<^verbatim>\<open>line.find(needle)\<close>: the position of the first occurrence of
  \<open>needle\<close> in the string, \<open>npos\<close> when there is none.
\<close>

definition npos :: "nat option" where
  "npos = None"

fun string_find :: "string \<Rightarrow> string \<Rightarrow> nat option" where
  "string_find [] needle = (if needle = [] then Some 0 else npos)"
| "string_find (c # cs) needle =
     (if prefix needle (c # cs) then Some 0 else map_option Suc (string_find cs needle))"

text \<open>
  \<^verbatim>\<open>std::ifstream stream(filepath)\<close>: the file system is a map from paths to file contents.
  A stream is \<open>None\<close> when the file could not be opened (every read then fails) and
  otherwise holds the characters not yet read.
\<close>

type_synonym filesystem = "string \<Rightarrow> string option"

type_synonym ifstream = "string option"

definition ifstream_open :: "filesystem \<Rightarrow> string \<Rightarrow> ifstream" where
  "ifstream_open fs filepath = fs filepath"

text \<open>
  \<^verbatim>\<open>getline(stream, line)\<close>: extracts characters up to the next newline, which is consumed
  and not stored. It fails (\<open>None\<close>) on a stream that is not open and at the end of the
  file when no character could be extracted; a last line without a newline is delivered.
\<close>

fun getline :: "ifstream \<Rightarrow> (string \<times> ifstream) option" where
  "getline None = None"
| "getline (Some []) = None"
| "getline (Some (c # cs)) =
     Some (takeWhile (\<lambda>x. x \<noteq> newline) (c # cs),
           Some (drop 1 (dropWhile (\<lambda>x. x \<noteq> newline) (c # cs))))"

definition remaining :: "ifstream \<Rightarrow> nat" where
  "remaining stream = (case stream of None \<Rightarrow> 0 | Some s \<Rightarrow> length s)"

text \<open>The lines that successive \<^verbatim>\<open>getline\<close> calls deliver until the first failing one.\<close>

function lines_read :: "ifstream \<Rightarrow> string list" where
  "lines_read stream =
     (case getline stream of
        None \<Rightarrow> []
      | Some (line, stream') \<Rightarrow> line # lines_read stream')"
  by pat_completeness auto
termination
proof (relation "measure remaining")
  fix stream :: ifstream and x2 line stream'
  assume g: "getline stream = Some x2" and x: "(line, stream') = x2"
  from g x obtain c cs where s: "stream = Some (c # cs)"
    and r: "stream' = Some (drop 1 (dropWhile (\<lambda>x. x \<noteq> newline) (c # cs)))"
    by (cases stream rule: getline.cases) auto
  have "length (dropWhile (\<lambda>x. x \<noteq> newline) (c # cs)) \<le> length (c # cs)"
    by (rule length_dropWhile_le)
  then have "length (drop 1 (dropWhile (\<lambda>x. x \<noteq> newline) (c # cs))) < length (c # cs)"
    by simp
  with s r show "(stream', stream) \<in> measure remaining"
    by (simp add: remaining_def)
qed simp

subsection \<open>ParseShader\<close>

record ShaderProgramSource =
  VertexSource :: string
  FragmentSource :: string

text \<open>The local \<^verbatim>\<open>enum class ShaderType\<close> and the cast \<^verbatim>\<open>(int)type\<close>.\<close>

datatype ShaderType = NONE | VERTEX | FRAGMENT

fun ShaderType_int :: "ShaderType \<Rightarrow> int" where
  "ShaderType_int NONE = -1"
| "ShaderType_int VERTEX = 0"
| "ShaderType_int FRAGMENT = 1"

text \<open>
  \<^verbatim>\<open>ss[i] << s\<close> on the array \<^verbatim>\<open>std::stringstream ss[2]\<close>: the array is the list of the
  buffers' contents. C++ does not define an access outside the array; the model returns
  the fault.
\<close>

definition stream_write :: "string list \<Rightarrow> int \<Rightarrow> string \<Rightarrow> fault + string list" where
  "stream_write ss i s =
     (if 0 \<le> i \<and> i < int (length ss) then Inr (ss[nat i := ss ! nat i @ s])
      else Inl (IndexOutOfBounds i))"

text \<open>The body of the \<^verbatim>\<open>while\<close> loop, on the loop's variables \<^verbatim>\<open>type\<close> and \<^verbatim>\<open>ss\<close>.\<close>

definition ParseShader_body ::
  "ShaderType \<times> string list \<Rightarrow> string \<Rightarrow> fault + ShaderType \<times> string list" where
  "ParseShader_body st line =
     (case st of (type, ss) \<Rightarrow>
        if string_find line ''#shader'' \<noteq> npos then
          (if string_find line ''vertex'' \<noteq> npos then Inr (VERTEX, ss)
           else if string_find line ''fragment'' \<noteq> npos then Inr (FRAGMENT, ss)
           else Inr (type, ss))
        else
          (case stream_write ss (ShaderType_int type) (line @ endl) of
             Inl f \<Rightarrow> Inl f
           | Inr ss' \<Rightarrow> Inr (type, ss')))"

text \<open>\<^verbatim>\<open>while (getline(stream, line)) { ... }\<close>\<close>

function ParseShader_loop ::
  "ifstream \<Rightarrow> ShaderType \<times> string list \<Rightarrow> fault + ShaderType \<times> string list" where
  "ParseShader_loop stream st =
     (case getline stream of
        None \<Rightarrow> Inr st
      | Some (line, stream') \<Rightarrow>
          (case ParseShader_body st line of
             Inl f \<Rightarrow> Inl f
           | Inr st' \<Rightarrow> ParseShader_loop stream' st'))"
  by pat_completeness auto
termination
proof (relation "measure (\<lambda>(stream, st). remaining stream)")
  fix stream :: ifstream and st :: "ShaderType \<times> string list"
    and x2 line stream' st'
  assume g: "getline stream = Some x2" and x: "(line, stream') = x2"
  from g x obtain c cs where s: "stream = Some (c # cs)"
    and r: "stream' = Some (drop 1 (dropWhile (\<lambda>x. x \<noteq> newline) (c # cs)))"
    by (cases stream rule: getline.cases) auto
  have "length (dropWhile (\<lambda>x. x \<noteq> newline) (c # cs)) \<le> length (c # cs)"
    by (rule length_dropWhile_le)
  then have "length (drop 1 (dropWhile (\<lambda>x. x \<noteq> newline) (c # cs))) < length (c # cs)"
    by simp
  with s r show "((stream', st'), (stream, st)) \<in> measure (\<lambda>(stream, st). remaining stream)"
    by (simp add: remaining_def)
qed simp

definition ParseShader :: "filesystem \<Rightarrow> string \<Rightarrow> fault + ShaderProgramSource" where
  "ParseShader fs filepath =
     (let stream = ifstream_open fs filepath in
      case ParseShader_loop stream (NONE, [[], []]) of
        Inl f \<Rightarrow> Inl f
      | Inr (type, ss) \<Rightarrow> Inr \<lparr>VertexSource = ss ! 0, FragmentSource = ss ! 1\<rparr>)"

subsection \<open>The graphics API as environment\<close>

text \<open>
  OpenGL, GLEW and GLFW are libraries outside the repository. A call to them is recorded,
  with its arguments, in the history of the world; what a call returns is decided by the
  environment, as a function of the history up to and including that call. Floating-point
  and pointer arguments are recorded as \<open>AData\<close> without their value.
\<close>

datatype arg = AUInt "32 word" | AInt int | AStr string | AData

datatype api_call = Call string "arg list"

text \<open>The error codes that \<^verbatim>\<open>glGetError\<close> can report, with their values in the GL header.\<close>

datatype gl_error =
    GL_INVALID_ENUM | GL_INVALID_VALUE | GL_INVALID_OPERATION
  | GL_STACK_OVERFLOW | GL_STACK_UNDERFLOW | GL_OUT_OF_MEMORY
  | GL_INVALID_FRAMEBUFFER_OPERATION | GL_CONTEXT_LOST

fun error_code :: "gl_error \<Rightarrow> 32 word" where
  "error_code GL_INVALID_ENUM = 0x0500"
| "error_code GL_INVALID_VALUE = 0x0501"
| "error_code GL_INVALID_OPERATION = 0x0502"
| "error_code GL_STACK_OVERFLOW = 0x0503"
| "error_code GL_STACK_UNDERFLOW = 0x0504"
| "error_code GL_OUT_OF_MEMORY = 0x0505"
| "error_code GL_INVALID_FRAMEBUFFER_OPERATION = 0x0506"
| "error_code GL_CONTEXT_LOST = 0x0507"

text \<open>
  The environment: the values returned by the library calls (\<open>ret_ptr\<close> tells whether a
  returned pointer is non-null; \<open>ret_string\<close> is the C string a call returns or stores in
  the buffer passed to it, \<open>None\<close> for a null pointer or when nothing is stored;
  \<open>ret_param\<close> and \<open>ret_name\<close> are the value a call stores through a pointer argument,
  \<open>None\<close> when it stores nothing), the error flags a call raises, the comparison
  \<^verbatim>\<open>currentTime - previousTime >= 1.0\<close> on the doubles returned by \<^verbatim>\<open>glfwGetTime\<close>
  (type \<open>'t\<close>), the file system, and the value of \<^verbatim>\<open>__FILE__\<close>.
\<close>

record 't env =
  ret_uint :: "api_call list \<Rightarrow> 32 word"
  ret_int :: "api_call list \<Rightarrow> int"
  ret_ptr :: "api_call list \<Rightarrow> bool"
  ret_string :: "api_call list \<Rightarrow> string option"
  ret_param :: "api_call list \<Rightarrow> int option"
  ret_name :: "api_call list \<Rightarrow> 32 word option"
  ret_time :: "api_call list \<Rightarrow> 't"
  raised :: "api_call list \<Rightarrow> gl_error list"
  second_passed :: "'t \<Rightarrow> 't \<Rightarrow> bool"
  files :: filesystem
  source_file :: string

text \<open>
  The world: the history of library calls, the error flags of the GL context that are set
  and not yet fetched, and the text written to \<^verbatim>\<open>std::cout\<close> and \<^verbatim>\<open>std::cerr\<close>.
\<close>

record world =
  calls :: "api_call list"
  errors :: "gl_error list"
  cout :: string
  cerr :: string

definition api :: "'t env \<Rightarrow> api_call \<Rightarrow> world \<Rightarrow> world" where
  "api e c w =
     (let h = calls w @ [c] in w\<lparr>calls := h, errors := errors w @ raised e h\<rparr>)"

definition api_uint :: "'t env \<Rightarrow> api_call \<Rightarrow> world \<Rightarrow> 32 word \<times> world" where
  "api_uint e c w = (let w' = api e c w in (ret_uint e (calls w'), w'))"

definition api_int :: "'t env \<Rightarrow> api_call \<Rightarrow> world \<Rightarrow> int \<times> world" where
  "api_int e c w = (let w' = api e c w in (ret_int e (calls w'), w'))"

definition api_ptr :: "'t env \<Rightarrow> api_call \<Rightarrow> world \<Rightarrow> bool \<times> world" where
  "api_ptr e c w = (let w' = api e c w in (ret_ptr e (calls w'), w'))"

definition api_string :: "'t env \<Rightarrow> api_call \<Rightarrow> world \<Rightarrow> string option \<times> world" where
  "api_string e c w = (let w' = api e c w in (ret_string e (calls w'), w'))"

definition api_name :: "'t env \<Rightarrow> api_call \<Rightarrow> world \<Rightarrow> 32 word option \<times> world" where
  "api_name e c w = (let w' = api e c w in (ret_name e (calls w'), w'))"

definition api_time :: "'t env \<Rightarrow> api_call \<Rightarrow> world \<Rightarrow> 't \<times> world" where
  "api_time e c w = (let w' = api e c w in (ret_time e (calls w'), w'))"

text \<open>
  A \<^verbatim>\<open>const char*\<close> read as a C string: the characters before the first NUL.
\<close>

definition c_str :: "string \<Rightarrow> string" where
  "c_str s = takeWhile (\<lambda>c. c \<noteq> CHR 0x00) s"

text \<open>Constants of the GL and GLEW headers used by the program, and \<^verbatim>\<open>INT_MAX\<close>.\<close>

definition GL_NO_ERROR :: "32 word" where "GL_NO_ERROR = 0"
definition GL_FALSE :: int where "GL_FALSE = 0"
definition GL_VERTEX_SHADER :: "32 word" where "GL_VERTEX_SHADER = 0x8B31"
definition GL_FRAGMENT_SHADER :: "32 word" where "GL_FRAGMENT_SHADER = 0x8B30"
definition GL_COMPILE_STATUS :: "32 word" where "GL_COMPILE_STATUS = 0x8B81"
definition GL_INFO_LOG_LENGTH :: "32 word" where "GL_INFO_LOG_LENGTH = 0x8B84"
definition GL_VERSION :: "32 word" where "GL_VERSION = 0x1F02"
definition GL_ARRAY_BUFFER :: "32 word" where "GL_ARRAY_BUFFER = 0x8892"
definition GL_ELEMENT_ARRAY_BUFFER :: "32 word" where "GL_ELEMENT_ARRAY_BUFFER = 0x8893"
definition GL_STATIC_DRAW :: "32 word" where "GL_STATIC_DRAW = 0x88E4"
definition GL_FLOAT :: "32 word" where "GL_FLOAT = 0x1406"
definition GL_UNSIGNED_INT :: "32 word" where "GL_UNSIGNED_INT = 0x1405"
definition GL_TRIANGLES :: "32 word" where "GL_TRIANGLES = 0x0004"
definition GL_COLOR_BUFFER_BIT :: "32 word" where "GL_COLOR_BUFFER_BIT = 0x4000"
definition GLEW_OK :: "32 word" where "GLEW_OK = 0"
definition INT_MAX :: int where "INT_MAX = 2147483647"

text \<open>
  \<^verbatim>\<open>glGetError()\<close>: returns the code of one error flag that is set and clears that flag, or
  \<^verbatim>\<open>GL_NO_ERROR\<close> when no flag is set. It raises no error itself.
\<close>

definition glGetError :: "world \<Rightarrow> 32 word \<times> world" where
  "glGetError w =
     (case errors w of
        [] \<Rightarrow> (GL_NO_ERROR, w\<lparr>calls := calls w @ [Call ''glGetError'' []]\<rparr>)
      | x # xs \<Rightarrow>
          (error_code x, w\<lparr>calls := calls w @ [Call ''glGetError'' []], errors := xs\<rparr>))"

text \<open>
  \<^verbatim>\<open>glGetShaderiv(shader, pname, &params)\<close>: the value the driver stores in \<^verbatim>\<open>params\<close>. A
  call that fails stores nothing; it always fails for shader 0, which is not the name of a
  shader object.
\<close>

definition glGetShaderiv ::
  "'t env \<Rightarrow> 32 word \<Rightarrow> 32 word \<Rightarrow> world \<Rightarrow> int option \<times> world" where
  "glGetShaderiv e shader pname w =
     (let w' = api e (Call ''glGetShaderiv'' [AUInt shader, AUInt pname]) w
      in (if shader = 0 then None else ret_param e (calls w'), w'))"

text \<open>
  \<^verbatim>\<open>glGetShaderInfoLog(shader, bufSize, &length, infoLog)\<close>: the C string the driver
  stores in the buffer of \<^verbatim>\<open>bufSize\<close> characters. A buffer of no character holds not even
  the terminating NUL, so nothing is stored for \<^verbatim>\<open>bufSize <= 0\<close>.
\<close>

definition glGetShaderInfoLog ::
  "'t env \<Rightarrow> 32 word \<Rightarrow> int \<Rightarrow> world \<Rightarrow> string option \<times> world" where
  "glGetShaderInfoLog e shader bufSize w =
     (let w' = api e (Call ''glGetShaderInfoLog'' [AUInt shader, AInt bufSize]) w
      in (if bufSize \<le> 0 then None else map_option c_str (ret_string e (calls w')), w'))"

text \<open>Decimal output of \<^verbatim>\<open>operator<<\<close> for \<^verbatim>\<open>unsigned int\<close> and \<^verbatim>\<open>int\<close>.\<close>

definition digit_char :: "nat \<Rightarrow> char" where
  "digit_char d = ''0123456789'' ! d"

fun show_nat :: "nat \<Rightarrow> string" where
  "show_nat n =
     (if n < 10 then [digit_char n]
      else show_nat (n div 10) @ [digit_char (n mod 10)])"

definition show_int :: "int \<Rightarrow> string" where
  "show_int i = (if i < 0 then ''-'' @ show_nat (nat (- i)) else show_nat (nat i))"

subsection \<open>GLClearError, GLLogCall and the macros ASSERT and GLCall\<close>

text \<open>\<^verbatim>\<open>while (glGetError() != GL_NO_ERROR);\<close>\<close>

function GLClearError :: "world \<Rightarrow> world" where
  "GLClearError w =
     (case glGetError w of
        (error, w') \<Rightarrow> if error \<noteq> GL_NO_ERROR then GLClearError w' else w')"
  by pat_completeness auto
termination
  by (relation "measure (\<lambda>w. length (errors w))")
    (auto simp: glGetError_def split: list.splits)

text \<open>
  The loop of \<^verbatim>\<open>GLLogCall\<close> returns in its first iteration: one flag is fetched; if it is an
  error, the message is printed and the result is \<^verbatim>\<open>false\<close>.
\<close>

definition GLLogCall :: "string \<Rightarrow> string \<Rightarrow> int \<Rightarrow> world \<Rightarrow> bool \<times> world" where
  "GLLogCall function file line w =
     (case glGetError w of
        (error, w') \<Rightarrow>
          if error \<noteq> 0 then
            (False,
             w'\<lparr>cout := cout w' @ ''[OpenGL Error] ('' @ show_nat (unat error) @ '') in file ''
                @ file @ '' on function '' @ function @ '' at line '' @ show_int line @ endl\<rparr>)
          else (True, w'))"

text \<open>\<^verbatim>\<open>ASSERT(x)\<close>: \<^verbatim>\<open>if (!(x)) __debugbreak();\<close>. The trap ends the run.\<close>

definition ASSERT :: "bool \<Rightarrow> 'a \<Rightarrow> fault + 'a" where
  "ASSERT x k = (if \<not> x then Inl DebugBreak else Inr k)"

text \<open>
  \<^verbatim>\<open>GLCall(x)\<close> expands to \<^verbatim>\<open>GLClearError(); x; ASSERT(GLLogCall(#x, __FILE__, __LINE__))\<close>.
  The wrapped statement \<open>x\<close> is a world transformer that yields the value it computes;
  \<open>function\<close> is its source text.
\<close>

definition GLCall ::
  "(world \<Rightarrow> 'a \<times> world) \<Rightarrow> string \<Rightarrow> string \<Rightarrow> int \<Rightarrow> world \<Rightarrow> fault \<times> world + 'a \<times> world" where
  "GLCall x function file line w =
     (let w1 = GLClearError w;
          (v, w2) = x w1;
          (ok, w3) = GLLogCall function file line w2
      in case ASSERT ok (v, w3) of Inl f \<Rightarrow> Inl (f, w3) | Inr r \<Rightarrow> Inr r)"

subsection \<open>CompileShader and CreateShader\<close>

text \<open>
  \<^verbatim>\<open>CompileShader\<close>. The locals \<^verbatim>\<open>result\<close> and \<^verbatim>\<open>length\<close> are declared without a value
  and the buffer \<^verbatim>\<open>message\<close> comes from \<^verbatim>\<open>alloca(length * sizeof(char))\<close>: reading one
  of them when the driver stored nothing is \<open>UninitialisedRead\<close>, and a negative
  \<^verbatim>\<open>length\<close>, converted to \<^verbatim>\<open>size_t\<close>, asks \<^verbatim>\<open>alloca\<close> for more than the stack holds.
  The first line of the message is written before \<^verbatim>\<open>message\<close> is read.
\<close>

definition CompileShader ::
  "'t env \<Rightarrow> 32 word \<Rightarrow> string \<Rightarrow> world \<Rightarrow> fault \<times> world + 32 word \<times> world" where
  "CompileShader e type source w =
     (let (id, w1) = api_uint e (Call ''glCreateShader'' [AUInt type]) w;
          w2 = api e (Call ''glShaderSource'' [AUInt id, AInt 1, AStr (c_str source), AData]) w1;
          w3 = api e (Call ''glCompileShader'' [AUInt id]) w2;
          (result, w4) = glGetShaderiv e id GL_COMPILE_STATUS w3
      in case result of
           None \<Rightarrow> Inl (UninitialisedRead, w4)
         | Some result \<Rightarrow>
             if result = GL_FALSE then
               (let (length, w5) = glGetShaderiv e id GL_INFO_LOG_LENGTH w4
                in case length of
                     None \<Rightarrow> Inl (UninitialisedRead, w5)
                   | Some len \<Rightarrow>
                       if len < 0 then Inl (StackExhausted, w5)
                       else
                         (let (message, w6) = glGetShaderInfoLog e id len w5;
                              w7 = w6\<lparr>cerr := cerr w6 @ ''Failed to compile ''
                                     @ (if type = GL_VERTEX_SHADER then ''vertex''
                                        else ''fragment'') @ endl\<rparr>
                          in case message of
                               None \<Rightarrow> Inl (UninitialisedRead, w7)
                             | Some message \<Rightarrow>
                                 (let w8 = w7\<lparr>cerr := cerr w7 @ message @ endl\<rparr>;
                                      w9 = api e (Call ''glDeleteShader'' [AUInt id]) w8
                                  in Inr (0, w9))))
             else Inr (id, w4))"

definition CreateShader ::
  "'t env \<Rightarrow> string \<Rightarrow> string \<Rightarrow> world \<Rightarrow> fault \<times> world + 32 word \<times> world" where
  "CreateShader e vertexShader fragmentShader w =
     (let (program, w1) = api_uint e (Call ''glCreateProgram'' []) w
      in case CompileShader e GL_VERTEX_SHADER vertexShader w1 of
           Inl fw \<Rightarrow> Inl fw
         | Inr (vs, w2) \<Rightarrow>
             (case CompileShader e GL_FRAGMENT_SHADER fragmentShader w2 of
                Inl fw \<Rightarrow> Inl fw
              | Inr (fs, w3) \<Rightarrow>
                  (let w4 = api e (Call ''glAttachShader'' [AUInt program, AUInt vs]) w3;
                       w5 = api e (Call ''glAttachShader'' [AUInt program, AUInt fs]) w4;
                       w6 = api e (Call ''glLinkProgram'' [AUInt program]) w5;
                       w7 = api e (Call ''glValidateProgram'' [AUInt program]) w6;
                       w8 = api e (Call ''glDeleteShader'' [AUInt vs]) w7;
                       w9 = api e (Call ''glDeleteShader'' [AUInt fs]) w8
                   in Inr (program, w9))))"

subsection \<open>GetFPS and main\<close>

text \<open>
  \<^verbatim>\<open>GetFPS\<close> updates \<^verbatim>\<open>frameCount\<close> and \<^verbatim>\<open>previousTime\<close>, passed by reference.
  \<^verbatim>\<open>frameCount\<close> is a 32-bit \<^verbatim>\<open>int\<close>: \<^verbatim>\<open>frameCount++\<close> at \<^verbatim>\<open>INT_MAX\<close> is a signed
  overflow, which C++ does not define.
\<close>

definition GetFPS ::
  "'t env \<Rightarrow> int \<times> 't \<Rightarrow> world \<Rightarrow> fault \<times> world + (int \<times> 't) \<times> world" where
  "GetFPS e st w =
     (case st of (frameCount, previousTime) \<Rightarrow>
        let (currentTime, w1) = api_time e (Call ''glfwGetTime'' []) w
        in if frameCount = INT_MAX then Inl (SignedOverflow, w1)
           else
             let frameCount = frameCount + 1
             in if second_passed e currentTime previousTime then
                  Inr ((0, currentTime),
                       w1\<lparr>cout := cout w1 @ ''FPS: '' @ show_int frameCount @ endl\<rparr>)
                else Inr ((frameCount, previousTime), w1))"

text \<open>
  The render loop \<^verbatim>\<open>while (!glfwWindowShouldClose(window)) { ... }\<close>. It ends when the window
  is to be closed or when a fault occurs; when neither ever happens it does not return
  (\<open>None\<close>). The colour values \<^verbatim>\<open>r\<close>, \<^verbatim>\<open>g\<close>, \<^verbatim>\<open>b\<close> are floating-point data that only
  reach \<^verbatim>\<open>glUniform4f\<close>; they are not recorded.
\<close>

partial_function (option) render_loop ::
  "'t env \<Rightarrow> int \<Rightarrow> int \<times> 't \<Rightarrow> world \<Rightarrow> (fault \<times> world + world) option" where
  "render_loop e location st w =
     (case api_int e (Call ''glfwWindowShouldClose'' [AData]) w of
        (close, w1) \<Rightarrow>
          if close \<noteq> 0 then Some (Inr w1)
          else
            (case GetFPS e st w1 of
               Inl fw \<Rightarrow> Some (Inl fw)
             | Inr (st', w2) \<Rightarrow>
                 (case GLCall
                         (\<lambda>w. ((), api e (Call ''glUniform4f''
                                [AInt location, AData, AData, AData, AData]) w))
                         ''glUniform4f(location, r, g, b, 1.0f)'' (source_file e) 205
                         (api e (Call ''glClear'' [AUInt GL_COLOR_BUFFER_BIT]) w2) of
                    Inl fw \<Rightarrow> Some (Inl fw)
                  | Inr (u, w4) \<Rightarrow>
                      (case GLCall
                              (\<lambda>w. ((), api e (Call ''glDrawElements''
                                     [AUInt GL_TRIANGLES, AInt 6, AUInt GL_UNSIGNED_INT, AData]) w))
                              ''glDrawElements(GL_TRIANGLES, 6, GL_UNSIGNED_INT, nullptr)''
                              (source_file e) 206 w4 of
                         Inl fw \<Rightarrow> Some (Inl fw)
                       | Inr (u, w5) \<Rightarrow>
                           render_loop e location st'
                             (api e (Call ''glfwPollEvents'' [])
                               (api e (Call ''glfwSwapBuffers'' [AData]) w5))))))"

text \<open>
  \<^verbatim>\<open>main\<close>. The result is the value returned by \<^verbatim>\<open>main\<close> (the exit code of the process) or
  the fault that ended the run, with the final world; \<open>None\<close> when the render loop does
  not end. \<^verbatim>\<open>std::cout << glGetString(GL_VERSION)\<close> with a null pointer is \<open>NullPointer\<close>;
  \<^verbatim>\<open>buffer\<close> and \<^verbatim>\<open>ibo\<close> are declared without a value and read after \<^verbatim>\<open>glGenBuffers\<close>.
\<close>

definition dquote :: char where
  "dquote = CHR 0x22"

definition main :: "'t env \<Rightarrow> world \<Rightarrow> ((fault + int) \<times> world) option" where
  "main e w =
     (let (init, w1) = api_int e (Call ''glfwInit'' []) w
      in if init = 0 then Some (Inr (- 1), w1)
         else
           let (window, w2) =
                 api_ptr e (Call ''glfwCreateWindow''
                   [AInt 640, AInt 480, AStr ''Hello World'', AData, AData]) w1
           in if \<not> window then
                (let w3 = api e (Call ''glfwTerminate'' []) w2 in Some (Inr (- 1), w3))
              else
                let w3 = api e (Call ''glfwMakeContextCurrent'' [AData]) w2;
                    w4 = api e (Call ''glfwSwapInterval'' [AInt 0]) w3;
                    (glew, w5) = api_uint e (Call ''glewInit'' []) w4
                in if glew \<noteq> GLEW_OK then
                     Some (Inr (- 1),
                           w5\<lparr>cerr := cerr w5 @ ''[ERROR] Error initializing GLEW'' @ [newline]\<rparr>)
                   else
  (case api_string e (Call ''glGetString'' [AUInt GL_VERSION]) w5 of
     (None, w6) \<Rightarrow> Some (Inl NullPointer, w6)
   | (Some version, w6) \<Rightarrow>
  (case api_name e (Call ''glGenBuffers'' [AInt 1])
          (w6\<lparr>cout := cout w6 @ c_str version @ [newline]\<rparr>) of
     (None, w8) \<Rightarrow> Some (Inl UninitialisedRead, w8)
   | (Some buffer, w8) \<Rightarrow>
  (case api_name e (Call ''glGenBuffers'' [AInt 1])
          (api e (Call ''glVertexAttribPointer''
                    [AUInt 0, AInt 2, AUInt GL_FLOAT, AInt GL_FALSE, AInt 8, AData])
          (api e (Call ''glEnableVertexAttribArray'' [AUInt 0])
          (api e (Call ''glBufferData''
                    [AUInt GL_ARRAY_BUFFER, AInt 32, AData, AUInt GL_STATIC_DRAW])
          (api e (Call ''glBindBuffer'' [AUInt GL_ARRAY_BUFFER, AUInt buffer]) w8)))) of
     (None, w13) \<Rightarrow> Some (Inl UninitialisedRead, w13)
   | (Some ibo, w13) \<Rightarrow>
  (let w14 = api e (Call ''glBindBuffer'' [AUInt GL_ELEMENT_ARRAY_BUFFER, AUInt ibo]) w13;
       w15 = api e (Call ''glBufferData''
               [AUInt GL_ELEMENT_ARRAY_BUFFER, AInt 24, AData, AUInt GL_STATIC_DRAW]) w14
   in
  (case ParseShader (files e) ''res/shaders/basic.shader'' of
     Inl f \<Rightarrow> Some (Inl f, w15)
   | Inr source \<Rightarrow>
  (case CreateShader e (VertexSource source) (FragmentSource source) w15 of
     Inl (f, w16) \<Rightarrow> Some (Inl f, w16)
   | Inr (shader, w16) \<Rightarrow>
  (case GLCall (api_int e (Call ''glGetUniformLocation'' [AUInt shader, AStr ''u_Color'']))
          (''int location = glGetUniformLocation(shader, '' @ [dquote] @ ''u_Color''
             @ [dquote] @ '')'')
          (source_file e) 162
          (api e (Call ''glUseProgram'' [AUInt shader]) w16) of
     Inl (f, w18) \<Rightarrow> Some (Inl f, w18)
   | Inr (location, w18) \<Rightarrow>
  (case ASSERT (location \<noteq> - 1) () of
     Inl f \<Rightarrow> Some (Inl f, w18)
   | Inr u \<Rightarrow>
  (case GLCall
          (\<lambda>w. ((), api e (Call ''glUniform4f''
                 [AInt location, AData, AData, AData, AData]) w))
          ''glUniform4f(location, 0.5f, 0.3f, 0.8f, 1.0f)''
          (source_file e) 164 w18 of
     Inl (f, w19) \<Rightarrow> Some (Inl f, w19)
   | Inr (u, w19) \<Rightarrow>
  (let (previousTime, w20) = api_time e (Call ''glfwGetTime'' []) w19
   in case render_loop e location (0, previousTime) w20 of
        None \<Rightarrow> None
      | Some (Inl (f, w21)) \<Rightarrow> Some (Inl f, w21)
      | Some (Inr w21) \<Rightarrow>
          let w22 = api e (Call ''glDeleteProgram'' [AUInt shader]) w21;
              w23 = api e (Call ''glfwTerminate'' []) w22
          in Some (Inr 0, w23))))))))))))"

subsection \<open>An example environment\<close>

text \<open>
  An environment in which every shader compilation fails with the log \<^verbatim>\<open>syntax error\<close>
  (13 characters with the NUL), handles are numbered by the position of the creating call
  in the history, and no call raises an error; and the world before the program starts.
  The properties below are instantiated with them.
\<close>

fun is_log_length_query :: "api_call \<Rightarrow> bool" where
  "is_log_length_query (Call n [a, AUInt p]) = (p = GL_INFO_LOG_LENGTH)"
| "is_log_length_query c = False"

definition failing_env :: "unit env" where
  "failing_env =
     \<lparr>ret_uint = (\<lambda>h. of_nat (length h)),
      ret_int = (\<lambda>h. 0),
      ret_ptr = (\<lambda>h. True),
      ret_string = (\<lambda>h. Some ''syntax error''),
      ret_param = (\<lambda>h. if is_log_length_query (last h) then Some 13 else Some 0),
      ret_name = (\<lambda>h. Some (of_nat (length h))),
      ret_time = (\<lambda>h. ()),
      raised = (\<lambda>h. []),
      second_passed = (\<lambda>a b. False),
      files = Map.empty,
      source_file = ''Application.cpp''\<rparr>"

text \<open>
  The same environment when the driver stores 0 for every queried parameter: each
  compilation fails and the length of its info log is 0.
\<close>

definition silent_env :: "unit env" where
  "silent_env = failing_env\<lparr>ret_param := (\<lambda>h. Some 0)\<rparr>"

definition empty_world :: world where
  "empty_world = \<lparr>calls = [], errors = [], cout = [], cerr = []\<rparr>"

declare GLClearError.simps [simp del]

subsection \<open>Auxiliary notions for the properties of ParseShader\<close>

text \<open>
  The loop as a function of the lines read: the body applied to each line in turn, stopping
  at the first fault. \<open>ParseShader_loop_lines\<close> below shows that the loop computes it.
\<close>

fun run_lines ::
  "string list \<Rightarrow> ShaderType \<times> string list \<Rightarrow> fault + ShaderType \<times> string list" where
  "run_lines [] st = Inr st"
| "run_lines (l # ls) st =
     (case ParseShader_body st l of Inl f \<Rightarrow> Inl f | Inr st' \<Rightarrow> run_lines ls st')"

text \<open>What \<^verbatim>\<open><< line << std::endl\<close> leaves in a buffer for a sequence of lines.\<close>

definition with_endl :: "string list \<Rightarrow> string" where
  "with_endl ls = concat (map (\<lambda>l. l @ endl) ls)"

text \<open>
  The lines the loop treats as content (no \<^verbatim>\<open>#shader\<close> anywhere), and the lines that
  assign the section (the token together with a stage keyword).
\<close>

definition content_lines :: "string list \<Rightarrow> string list" where
  "content_lines ls = filter (\<lambda>l. \<not> sublist ''#shader'' l) ls"

definition section_marker :: "string \<Rightarrow> bool" where
  "section_marker l \<longleftrightarrow>
     sublist ''#shader'' l \<and> (sublist ''vertex'' l \<or> sublist ''fragment'' l)"

declare ParseShader_loop.simps [simp del] lines_read.simps [simp del]

section \<open>Properties of ParseShader\<close>

lemma string_find_sublist: "string_find hay needle \<noteq> npos \<longleftrightarrow> sublist needle hay"
  by (induction hay) (auto simp: npos_def sublist_Cons_right)

lemma ParseShader_loop_lines: "ParseShader_loop stream st = run_lines (lines_read stream) st"
proof (induction stream st rule: ParseShader_loop.induct)
  case (1 stream st)
  show ?case
  proof (cases "getline stream")
    case None
    have "ParseShader_loop stream st = Inr st"
      by (subst ParseShader_loop.simps) (simp add: None)
    moreover have "lines_read stream = []"
      by (subst lines_read.simps) (simp add: None)
    ultimately show ?thesis by simp
  next
    case (Some p)
    obtain line stream' where p: "p = (line, stream')" by (cases p)
    have l: "lines_read stream = line # lines_read stream'"
      by (subst lines_read.simps) (simp add: Some p)
    show ?thesis
    proof (cases "ParseShader_body st line")
      case (Inl f)
      have "ParseShader_loop stream st = Inl f"
        by (subst ParseShader_loop.simps) (simp add: Some p Inl)
      with l Inl show ?thesis by simp
    next
      case (Inr st')
      have step: "ParseShader_loop stream st = ParseShader_loop stream' st'"
        by (subst ParseShader_loop.simps) (simp add: Some p Inr)
      have ih: "ParseShader_loop stream' st' = run_lines (lines_read stream') st'"
        using Some p Inr by (intro "1.IH") simp_all
      show ?thesis by (simp add: step ih l Inr)
    qed
  qed
qed

lemma run_lines_append:
  "run_lines (xs @ ys) st =
     (case run_lines xs st of Inl f \<Rightarrow> Inl f | Inr st' \<Rightarrow> run_lines ys st')"
  by (induction xs arbitrary: st) (auto split: sum.splits)

lemma body_marker:
  "sublist ''#shader'' l \<Longrightarrow>
   ParseShader_body (ty, ss) l =
     Inr (if sublist ''vertex'' l then VERTEX
          else if sublist ''fragment'' l then FRAGMENT else ty, ss)"
  using string_find_sublist [of l] by (simp add: ParseShader_body_def)

lemma body_content:
  "\<not> sublist ''#shader'' l \<Longrightarrow>
   ParseShader_body (ty, ss) l =
     (case stream_write ss (ShaderType_int ty) (l @ endl) of
        Inl f \<Rightarrow> Inl f | Inr ss' \<Rightarrow> Inr (ty, ss'))"
  using string_find_sublist [of l] by (simp add: ParseShader_body_def)

lemma ParseShader_lines:
  "ParseShader fs filepath =
     (case run_lines (lines_read (ifstream_open fs filepath)) (NONE, [[], []]) of
        Inl f \<Rightarrow> Inl f
      | Inr (type, ss) \<Rightarrow> Inr \<lparr>VertexSource = ss ! 0, FragmentSource = ss ! 1\<rparr>)"
  by (simp add: ParseShader_def ParseShader_loop_lines)

lemma body_content_NONE:
  "\<not> sublist ''#shader'' l \<Longrightarrow> ParseShader_body (NONE, ss) l = Inl (IndexOutOfBounds (- 1))"
  by (simp add: body_content stream_write_def)

lemma body_content_VERTEX:
  "\<not> sublist ''#shader'' l \<Longrightarrow>
   ParseShader_body (VERTEX, [v, f]) l = Inr (VERTEX, [v @ l @ endl, f])"
  by (simp add: body_content stream_write_def)

lemma body_content_FRAGMENT:
  "\<not> sublist ''#shader'' l \<Longrightarrow>
   ParseShader_body (FRAGMENT, [v, f]) l = Inr (FRAGMENT, [v, f @ l @ endl])"
  by (simp add: body_content stream_write_def)

lemma with_endl_Nil [simp]: "with_endl [] = []"
  by (simp add: with_endl_def)

lemma with_endl_Cons [simp]: "with_endl (l # ls) = l @ endl @ with_endl ls"
  by (simp add: with_endl_def)

lemma with_endl_append [simp]: "with_endl (xs @ ys) = with_endl xs @ with_endl ys"
  by (simp add: with_endl_def)

lemma run_section_VERTEX:
  "\<forall>l\<in>set ls. \<not> section_marker l \<Longrightarrow>
   run_lines ls (VERTEX, [v, f]) = Inr (VERTEX, [v @ with_endl (content_lines ls), f])"
proof (induction ls arbitrary: v)
  case Nil
  then show ?case by (simp add: content_lines_def)
next
  case (Cons l ls)
  show ?case
  proof (cases "sublist ''#shader'' l")
    case True
    with Cons.prems have "ParseShader_body (VERTEX, [v, f]) l = Inr (VERTEX, [v, f])"
      by (simp add: body_marker section_marker_def)
    with Cons True show ?thesis by (simp add: content_lines_def)
  next
    case False
    with Cons show ?thesis by (simp add: body_content_VERTEX content_lines_def)
  qed
qed

lemma run_section_FRAGMENT:
  "\<forall>l\<in>set ls. \<not> section_marker l \<Longrightarrow>
   run_lines ls (FRAGMENT, [v, f]) = Inr (FRAGMENT, [v, f @ with_endl (content_lines ls)])"
proof (induction ls arbitrary: f)
  case Nil
  then show ?case by (simp add: content_lines_def)
next
  case (Cons l ls)
  show ?case
  proof (cases "sublist ''#shader'' l")
    case True
    with Cons.prems have "ParseShader_body (FRAGMENT, [v, f]) l = Inr (FRAGMENT, [v, f])"
      by (simp add: body_marker section_marker_def)
    with Cons True show ?thesis by (simp add: content_lines_def)
  next
    case False
    with Cons show ?thesis by (simp add: body_content_FRAGMENT content_lines_def)
  qed
qed

lemma content_lines_id: "\<forall>l\<in>set ls. \<not> sublist ''#shader'' l \<Longrightarrow> content_lines ls = ls"
  by (simp add: content_lines_def)

text \<open>
  C1 (the code departs from the claim). A file without any marker line that has at least
  one line does not yield two empty strings: its first line is written while \<^verbatim>\<open>type\<close> is
  \<^verbatim>\<open>NONE\<close>, that is to \<^verbatim>\<open>ss[-1]\<close>, outside the two-element array.
\<close>

theorem ParseShader_unmarked_out_of_bounds:
  assumes "lines_read (ifstream_open fs filepath) \<noteq> []"
    and "\<forall>l\<in>set (lines_read (ifstream_open fs filepath)). \<not> sublist ''#shader'' l"
  shows "ParseShader fs filepath = Inl (IndexOutOfBounds (- 1))"
proof -
  from assms(1) obtain l ls where ls: "lines_read (ifstream_open fs filepath) = l # ls"
    by (cases "lines_read (ifstream_open fs filepath)") auto
  with assms(2) have "\<not> sublist ''#shader'' l" by simp
  then have "ParseShader_body (NONE, [[], []]) l = Inl (IndexOutOfBounds (- 1))"
    by (rule body_content_NONE)
  with ls show ?thesis by (simp add: ParseShader_lines)
qed

theorem ParseShader_unmarked_out_of_bounds_witness:
  "lines_read (ifstream_open (\<lambda>p. Some ''void main() {}\<newline>'') ''res/shaders/basic.shader'')
     = [''void main() {}'']
   \<and> ParseShader (\<lambda>p. Some ''void main() {}\<newline>'') ''res/shaders/basic.shader''
     = Inl (IndexOutOfBounds (- 1))"
proof -
  have l: "lines_read (ifstream_open (\<lambda>p. Some ''void main() {}\<newline>'') ''res/shaders/basic.shader'')
     = [''void main() {}'']"
    by (simp add: ifstream_open_def newline_def lines_read.simps)
  have "\<not> sublist ''#shader'' ''void main() {}''"
    by (simp add: sublist_code)
  with l show ?thesis
    using ParseShader_unmarked_out_of_bounds
      [of "\<lambda>p. Some ''void main() {}\<newline>''" "''res/shaders/basic.shader''"]
    by simp
qed

text \<open>
  A file path that does not exist: the stream yields no line, and ParseShader returns
  normally with both VertexSource and FragmentSource empty.
\<close>

lemma ParseShader_missing_file:
  assumes "fs filepath = None"
  shows "ParseShader fs filepath = Inr \<lparr>VertexSource = [], FragmentSource = []\<rparr>"
proof -
  from assms have "lines_read (ifstream_open fs filepath) = []"
    by (simp add: ifstream_open_def lines_read.simps)
  then show ?thesis by (simp add: ParseShader_lines)
qed

lemma ParseShader_missing_file_example:
  "ParseShader Map.empty ''res/shaders/basic.shader''
     = Inr \<lparr>VertexSource = [], FragmentSource = []\<rparr>"
  using ParseShader_missing_file [of Map.empty "''res/shaders/basic.shader''"] by simp

lemma run_lines_unkeyed:
  "\<forall>m\<in>set pre. sublist ''#shader'' m \<and> \<not> sublist ''vertex'' m \<and> \<not> sublist ''fragment'' m \<Longrightarrow>
   run_lines pre (ty, ss) = Inr (ty, ss)"
  by (induction pre) (simp_all add: body_marker)

text \<open>
  C8 (the code departs from the claim). ParseShader does not return for every file that
  exists: when the first line that is not a marker line without a stage keyword has no
  \<^verbatim>\<open>#shader\<close> in it, that line is written while \<^verbatim>\<open>type\<close> is \<^verbatim>\<open>NONE\<close>, to \<^verbatim>\<open>ss[-1]\<close>,
  whatever follows in the file, for instance both marker lines after a leading comment
  line. Only for a missing file, and for files without such a line, does ParseShader
  return.
\<close>

theorem ParseShader_content_before_marker_faults:
  assumes "lines_read (ifstream_open fs filepath) = pre @ l # post"
    and "\<forall>m\<in>set pre. sublist ''#shader'' m \<and> \<not> sublist ''vertex'' m \<and> \<not> sublist ''fragment'' m"
    and "\<not> sublist ''#shader'' l"
  shows "ParseShader fs filepath = Inl (IndexOutOfBounds (- 1))"
proof -
  have "run_lines pre (NONE, [[], []]) = Inr (NONE, [[], []])"
    using assms(2) by (rule run_lines_unkeyed)
  moreover have "ParseShader_body (NONE, [[], []]) l = Inl (IndexOutOfBounds (- 1))"
    using assms(3) by (rule body_content_NONE)
  ultimately have "run_lines (pre @ l # post) (NONE, [[], []]) = Inl (IndexOutOfBounds (- 1))"
    by (simp add: run_lines_append)
  with assms(1) show ?thesis by (simp add: ParseShader_lines)
qed

theorem ParseShader_content_before_marker_faults_witness:
  "ParseShader
     [''res/shaders/basic.shader'' \<mapsto>
        ''// basic shader\<newline>#shader vertex\<newline>V\<newline>#shader fragment\<newline>F\<newline>'']
     ''res/shaders/basic.shader''
   = Inl (IndexOutOfBounds (- 1))"
proof -
  let ?fs = "[''res/shaders/basic.shader'' \<mapsto>
        ''// basic shader\<newline>#shader vertex\<newline>V\<newline>#shader fragment\<newline>F\<newline>'']"
  have l: "lines_read (ifstream_open ?fs ''res/shaders/basic.shader'')
      = [] @ ''// basic shader'' # [''#shader vertex'', ''V'', ''#shader fragment'', ''F'']"
    by (simp add: ifstream_open_def newline_def lines_read.simps)
  have p: "\<forall>m\<in>set []. sublist ''#shader'' m \<and> \<not> sublist ''vertex'' m \<and> \<not> sublist ''fragment'' m"
    by simp
  have c: "\<not> sublist ''#shader'' ''// basic shader''"
    by (simp add: sublist_code)
  show ?thesis
    by (rule ParseShader_content_before_marker_faults [OF l p c])
qed

lemma run_lines_dropped:
  assumes "sublist ''#shader'' l" "\<not> sublist ''vertex'' l" "\<not> sublist ''fragment'' l"
  shows "run_lines (pre @ l # post) st = run_lines (pre @ post) st"
proof -
  have "run_lines (l # post) st' = run_lines post st'" for st'
    using assms by (cases st') (simp add: body_marker)
  then show ?thesis by (simp add: run_lines_append split: sum.splits)
qed

text \<open>
  C10. A line that contains the token \<^verbatim>\<open>#shader\<close> but neither \<^verbatim>\<open>vertex\<close> nor
  \<^verbatim>\<open>fragment\<close> leaves the section and both buffers as they are, and ParseShader gives the
  same result on the file as on the file without that line.
\<close>

theorem ParseShader_marker_without_keyword_dropped:
  assumes "sublist ''#shader'' l" and "\<not> sublist ''vertex'' l" and "\<not> sublist ''fragment'' l"
    and "lines_read (ifstream_open fs p) = pre @ l # post"
    and "lines_read (ifstream_open fs q) = pre @ post"
  shows "ParseShader_body (type, ss) l = Inr (type, ss) \<and> ParseShader fs p = ParseShader fs q"
  using assms by (simp add: body_marker ParseShader_lines run_lines_dropped)

theorem ParseShader_marker_without_keyword_dropped_witness:
  "sublist ''#shader'' ''#shader geometry'' \<and> \<not> sublist ''vertex'' ''#shader geometry''
   \<and> \<not> sublist ''fragment'' ''#shader geometry''
   \<and> ParseShader_body (VERTEX, [''a'', ''b'']) ''#shader geometry'' = Inr (VERTEX, [''a'', ''b''])
   \<and> ParseShader [''p'' \<mapsto> ''#shader vertex\<newline>A\<newline>#shader geometry\<newline>B\<newline>'',
                   ''q'' \<mapsto> ''#shader vertex\<newline>A\<newline>B\<newline>''] ''p''
     = ParseShader [''p'' \<mapsto> ''#shader vertex\<newline>A\<newline>#shader geometry\<newline>B\<newline>'',
                    ''q'' \<mapsto> ''#shader vertex\<newline>A\<newline>B\<newline>''] ''q''"
proof -
  let ?fs = "[''p'' \<mapsto> ''#shader vertex\<newline>A\<newline>#shader geometry\<newline>B\<newline>'',
              ''q'' \<mapsto> ''#shader vertex\<newline>A\<newline>B\<newline>'']"
  have m: "sublist ''#shader'' ''#shader geometry''" "\<not> sublist ''vertex'' ''#shader geometry''"
    "\<not> sublist ''fragment'' ''#shader geometry''"
    by (simp_all add: sublist_code)
  have p: "lines_read (ifstream_open ?fs ''p'') = [''#shader vertex'', ''A''] @ ''#shader geometry'' # [''B'']"
    by (simp add: ifstream_open_def newline_def lines_read.simps)
  have q: "lines_read (ifstream_open ?fs ''q'') = [''#shader vertex'', ''A''] @ [''B'']"
    by (simp add: ifstream_open_def newline_def lines_read.simps)
  from ParseShader_marker_without_keyword_dropped [OF m p q, of VERTEX "[''a'', ''b'']"] m
  show ?thesis by simp
qed

text \<open>
  C4 (as stated it fails). The line \<^verbatim>\<open>"  #shader fragment"\<close> does not begin with the token,
  yet it switches the section from vertex to fragment and is not appended: the code tests
  \<^verbatim>\<open>line.find("#shader") != npos\<close>, an occurrence at any position.
\<close>

theorem ParseShader_noninitial_marker_counterexample:
  "\<not> prefix ''#shader'' ''  #shader fragment''
   \<and> ParseShader_body (VERTEX, [''A\<newline>'', '''']) ''  #shader fragment''
       = Inr (FRAGMENT, [''A\<newline>'', ''''])
   \<and> ParseShader (\<lambda>p. Some ''#shader vertex\<newline>A\<newline>  #shader fragment\<newline>B\<newline>'') ''f''
       = Inr \<lparr>VertexSource = ''A\<newline>'', FragmentSource = ''B\<newline>''\<rparr>"
  by (simp add: ParseShader_def ParseShader_body_def ParseShader_loop.simps ifstream_open_def
      newline_def endl_def npos_def stream_write_def)

text \<open>
  C4, amended. A line containing the token \<^verbatim>\<open>#shader\<close> at any position (\<open>pre\<close> and
  \<open>suf\<close> are arbitrary) is a marker line: it is not appended, and the section becomes
  vertex if the line contains \<^verbatim>\<open>vertex\<close>, else fragment if it contains \<^verbatim>\<open>fragment\<close>, else
  stays. A line without the token leaves the section unchanged and is appended, with a
  newline, to the buffer of the active section.
\<close>

theorem ParseShader_body_marker_anywhere:
  "ParseShader_body (type, ss) (pre @ ''#shader'' @ suf) =
     Inr (if sublist ''vertex'' (pre @ ''#shader'' @ suf) then VERTEX
          else if sublist ''fragment'' (pre @ ''#shader'' @ suf) then FRAGMENT
          else type, ss)
   \<and> (\<not> sublist ''#shader'' c \<longrightarrow>
        ParseShader_body (VERTEX, [v, f]) c = Inr (VERTEX, [v @ c @ endl, f])
      \<and> ParseShader_body (FRAGMENT, [v, f]) c = Inr (FRAGMENT, [v, f @ c @ endl]))"
proof -
  have "sublist ''#shader'' (pre @ ''#shader'' @ suf)"
    by (rule sublist_appendI)
  then have "ParseShader_body (type, ss) (pre @ ''#shader'' @ suf) =
     Inr (if sublist ''vertex'' (pre @ ''#shader'' @ suf) then VERTEX
          else if sublist ''fragment'' (pre @ ''#shader'' @ suf) then FRAGMENT
          else type, ss)"
    by (rule body_marker)
  moreover have "ParseShader_body (VERTEX, [v, f]) c = Inr (VERTEX, [v @ c @ endl, f])"
    if "\<not> sublist ''#shader'' c"
    using that by (rule body_content_VERTEX)
  moreover have "ParseShader_body (FRAGMENT, [v, f]) c = Inr (FRAGMENT, [v, f @ c @ endl])"
    if "\<not> sublist ''#shader'' c"
    using that by (rule body_content_FRAGMENT)
  ultimately show ?thesis by blast
qed

theorem ParseShader_body_marker_anywhere_witness:
  "ParseShader_body (VERTEX, [''A'', ''B'']) (''// '' @ ''#shader'' @ '' fragment'') =
     Inr (FRAGMENT, [''A'', ''B''])
   \<and> \<not> sublist ''#shader'' ''x = 1;''
   \<and> ParseShader_body (VERTEX, [''A'', ''B'']) ''x = 1;'' = Inr (VERTEX, [''A'' @ ''x = 1;'' @ endl, ''B''])
   \<and> ParseShader_body (FRAGMENT, [''A'', ''B'']) ''x = 1;'' = Inr (FRAGMENT, [''A'', ''B'' @ ''x = 1;'' @ endl])"
proof -
  have c: "\<not> sublist ''#shader'' ''x = 1;''"
    by (simp add: sublist_code)
  have k: "\<not> sublist ''vertex'' (''// '' @ ''#shader'' @ '' fragment'')"
    "sublist ''fragment'' (''// '' @ ''#shader'' @ '' fragment'')"
    by (simp_all add: sublist_code)
  from ParseShader_body_marker_anywhere
    [of VERTEX "[''A'', ''B'']" "''// ''" "'' fragment''" "''x = 1;''" "''A''" "''B''"] c k
  show ?thesis by simp
qed

lemma sublist_across_separator:
  assumes "n \<notin> set xs" and "sublist xs (ys @ n # zs)"
  shows "sublist xs ys \<or> sublist xs zs"
proof -
  from assms(2) consider "sublist xs ys" | "sublist xs (n # zs)"
    | xs1 xs2 where "xs = xs1 @ xs2" "suffix xs1 ys" "prefix xs2 (n # zs)"
    by (auto simp: sublist_append)
  then show ?thesis
  proof cases
    case 1
    then show ?thesis ..
  next
    case 2
    then have "prefix xs (n # zs) \<or> sublist xs zs"
      by (simp add: sublist_Cons_right)
    with assms(1) show ?thesis
      by (cases xs) (auto simp: prefix_Cons)
  next
    case 3
    with assms(1) have "xs2 = []"
      by (cases xs2) (auto simp: prefix_Cons)
    with 3 show ?thesis by auto
  qed
qed

lemma with_endl_no_marker:
  "\<forall>l\<in>set cs. \<not> sublist ''#shader'' l \<Longrightarrow> \<not> sublist ''#shader'' (with_endl cs)"
proof (induction cs)
  case Nil
  then show ?case by simp
next
  case (Cons c cs)
  have "newline \<notin> set ''#shader''"
    by (simp add: newline_def)
  then have "sublist ''#shader'' c \<or> sublist ''#shader'' (with_endl cs)"
    if "sublist ''#shader'' (c @ newline # with_endl cs)"
    using that by (rule sublist_across_separator)
  with Cons show ?case by (auto simp: endl_def)
qed

lemma content_lines_no_marker: "\<forall>l\<in>set (content_lines ls). \<not> sublist ''#shader'' l"
  by (simp add: content_lines_def)

lemma with_endl_nonempty: "with_endl (c # cs) \<noteq> []"
  by (simp add: endl_def)

text \<open>
  C7. When the lines read are a fragment marker, lines \<open>cs1\<close>, a vertex marker and lines
  \<open>cs2\<close>, the loop appends \<open>cs1\<close> to the fragment buffer and \<open>cs2\<close> to the vertex buffer,
  whatever the section and the buffers were before. So ParseShader returns \<open>cs1\<close> as
  FragmentSource and \<open>cs2\<close> as VertexSource, and the file with the two sections in the
  other order gives the same result.
\<close>

theorem ParseShader_section_follows_keyword:
  assumes "sublist ''#shader'' fm" and "\<not> sublist ''vertex'' fm" and "sublist ''fragment'' fm"
    and "sublist ''#shader'' vm" and "sublist ''vertex'' vm"
    and "\<forall>l\<in>set (cs1 @ cs2). \<not> sublist ''#shader'' l"
    and "lines_read (ifstream_open fs p) = fm # cs1 @ vm # cs2"
    and "lines_read (ifstream_open fs q) = vm # cs2 @ fm # cs1"
  shows "ParseShader_loop (ifstream_open fs p) (type, [v, f])
           = Inr (VERTEX, [v @ with_endl cs2, f @ with_endl cs1])
         \<and> ParseShader fs p
           = Inr \<lparr>VertexSource = with_endl cs2, FragmentSource = with_endl cs1\<rparr>
         \<and> ParseShader fs q = ParseShader fs p"
proof -
  have n1: "\<forall>l\<in>set cs1. \<not> section_marker l" and n2: "\<forall>l\<in>set cs2. \<not> section_marker l"
    using assms(6) by (auto simp: section_marker_def)
  have c1: "content_lines cs1 = cs1" and c2: "content_lines cs2 = cs2"
    using assms(6) by (auto intro: content_lines_id)
  have f: "ParseShader_body (ty, ss) fm = Inr (FRAGMENT, ss)" for ty ss
    using assms(1-3) by (simp add: body_marker)
  have v: "ParseShader_body (ty, ss) vm = Inr (VERTEX, ss)" for ty ss
    using assms(4,5) by (simp add: body_marker)
  have "run_lines (fm # cs1 @ vm # cs2) (NONE, [[], []])
          = Inr (VERTEX, [with_endl cs2, with_endl cs1])"
    by (simp add: f v run_lines_append run_section_FRAGMENT [OF n1]
        run_section_VERTEX [OF n2] c1 c2)
  moreover have "run_lines (fm # cs1 @ vm # cs2) (type, [v, f])
          = Inr (VERTEX, [v @ with_endl cs2, f @ with_endl cs1])"
    by (simp add: f v run_lines_append run_section_FRAGMENT [OF n1]
        run_section_VERTEX [OF n2] c1 c2)
  moreover have "run_lines (vm # cs2 @ fm # cs1) (NONE, [[], []])
          = Inr (FRAGMENT, [with_endl cs2, with_endl cs1])"
    by (simp add: f v run_lines_append run_section_FRAGMENT [OF n1]
        run_section_VERTEX [OF n2] c1 c2)
  ultimately show ?thesis
    using assms(7,8) by (simp add: ParseShader_lines ParseShader_loop_lines)
qed

theorem ParseShader_section_follows_keyword_witness:
  "ParseShader_loop
     (ifstream_open
        [''p'' \<mapsto> ''#shader fragment\<newline>F1\<newline>F2\<newline>#shader vertex\<newline>V1\<newline>'',
         ''q'' \<mapsto> ''#shader vertex\<newline>V1\<newline>#shader fragment\<newline>F1\<newline>F2\<newline>''] ''p'')
     (VERTEX, [''a'', ''b''])
     = Inr (VERTEX, [''a'' @ with_endl [''V1''], ''b'' @ with_endl [''F1'', ''F2'']])
   \<and> ParseShader [''p'' \<mapsto> ''#shader fragment\<newline>F1\<newline>F2\<newline>#shader vertex\<newline>V1\<newline>'',
                ''q'' \<mapsto> ''#shader vertex\<newline>V1\<newline>#shader fragment\<newline>F1\<newline>F2\<newline>''] ''p''
     = Inr \<lparr>VertexSource = with_endl [''V1''], FragmentSource = with_endl [''F1'', ''F2'']\<rparr>
   \<and> ParseShader [''p'' \<mapsto> ''#shader fragment\<newline>F1\<newline>F2\<newline>#shader vertex\<newline>V1\<newline>'',
                ''q'' \<mapsto> ''#shader vertex\<newline>V1\<newline>#shader fragment\<newline>F1\<newline>F2\<newline>''] ''q''
     = ParseShader [''p'' \<mapsto> ''#shader fragment\<newline>F1\<newline>F2\<newline>#shader vertex\<newline>V1\<newline>'',
                ''q'' \<mapsto> ''#shader vertex\<newline>V1\<newline>#shader fragment\<newline>F1\<newline>F2\<newline>''] ''p''"
proof -
  let ?fs = "[''p'' \<mapsto> ''#shader fragment\<newline>F1\<newline>F2\<newline>#shader vertex\<newline>V1\<newline>'',
              ''q'' \<mapsto> ''#shader vertex\<newline>V1\<newline>#shader fragment\<newline>F1\<newline>F2\<newline>'']"
  have fm: "sublist ''#shader'' ''#shader fragment''" "\<not> sublist ''vertex'' ''#shader fragment''"
    "sublist ''fragment'' ''#shader fragment''"
    by (simp_all add: sublist_code)
  have vm: "sublist ''#shader'' ''#shader vertex''" "sublist ''vertex'' ''#shader vertex''"
    by (simp_all add: sublist_code)
  have cs: "\<forall>l\<in>set ([''F1'', ''F2''] @ [''V1'']). \<not> sublist ''#shader'' l"
    by (simp add: sublist_code)
  have p: "lines_read (ifstream_open ?fs ''p'') = ''#shader fragment'' # [''F1'', ''F2''] @ ''#shader vertex'' # [''V1'']"
    by (simp add: ifstream_open_def newline_def lines_read.simps)
  have q: "lines_read (ifstream_open ?fs ''q'') = ''#shader vertex'' # [''V1''] @ ''#shader fragment'' # [''F1'', ''F2'']"
    by (simp add: ifstream_open_def newline_def lines_read.simps)
  show ?thesis
    by (rule ParseShader_section_follows_keyword [OF fm vm cs p q])
qed

lemma run_two_sections:
  assumes "ParseShader_body (NONE, [[], []]) m1 = Inr (t1, [[], []])"
    and "run_lines A (t1, [[], []]) = Inr (t1, ss1)"
    and "ParseShader_body (t1, ss1) m2 = Inr (t2, ss1)"
    and "run_lines B (t2, ss1) = Inr (t2, ss2)"
  shows "run_lines (m1 # A @ m2 # B) (NONE, [[], []]) = Inr (t2, ss2)"
  by (simp add: run_lines_append assms)

text \<open>
  C5 (as stated it fails). A file with exactly one vertex marker line and one fragment
  marker line whose vertex section has no line gives an empty VertexSource.
\<close>

theorem ParseShader_empty_section_counterexample:
  "ParseShader (\<lambda>p. Some ''#shader vertex\<newline>#shader fragment\<newline>void main() {}\<newline>'') ''f''
     = Inr \<lparr>VertexSource = [], FragmentSource = ''void main() {}\<newline>''\<rparr>"
  by (simp add: ParseShader_def ParseShader_body_def ParseShader_loop.simps ifstream_open_def
      newline_def endl_def npos_def stream_write_def)

text \<open>
  C5, amended. When the file starts with one of the two marker lines, each of the two is
  directly followed by a line without the token, and no other line assigns a section,
  ParseShader returns two non-empty strings, and no string containing \<^verbatim>\<open>#shader\<close>, so no
  marker line, occurs in their concatenation.
\<close>

theorem ParseShader_two_sections:
  assumes "lines_read (ifstream_open fs p) = m1 # c1 # r1 @ m2 # c2 # r2"
    and "sublist ''#shader'' m1" and "sublist ''#shader'' m2"
    and "(sublist ''vertex'' m1 \<and> \<not> sublist ''vertex'' m2 \<and> sublist ''fragment'' m2)
       \<or> (sublist ''vertex'' m2 \<and> \<not> sublist ''vertex'' m1 \<and> sublist ''fragment'' m1)"
    and "\<not> sublist ''#shader'' c1" and "\<not> sublist ''#shader'' c2"
    and "\<forall>l\<in>set (r1 @ r2). \<not> section_marker l"
  shows "\<exists>src. ParseShader fs p = Inr src
           \<and> VertexSource src \<noteq> [] \<and> FragmentSource src \<noteq> []
           \<and> (\<forall>m. sublist ''#shader'' m \<longrightarrow> \<not> sublist m (VertexSource src @ FragmentSource src))"
proof -
  let ?a = "c1 # content_lines r1" and ?b = "c2 # content_lines r2"
  have n1: "\<forall>l\<in>set (c1 # r1). \<not> section_marker l" and n2: "\<forall>l\<in>set (c2 # r2). \<not> section_marker l"
    using assms(5-7) by (auto simp: section_marker_def)
  have k1: "content_lines (c1 # r1) = ?a" and k2: "content_lines (c2 # r2) = ?b"
    using assms(5,6) by (simp_all add: content_lines_def)
  have clean: "\<not> sublist m (with_endl (xs @ ys))"
    if "sublist ''#shader'' m" "set xs \<union> set ys \<subseteq> set ?a \<union> set ?b" for m xs ys
  proof
    assume "sublist m (with_endl (xs @ ys))"
    with that(1) have "sublist ''#shader'' (with_endl (xs @ ys))"
      by (rule sublist_order.order_trans)
    moreover have "\<forall>l\<in>set (xs @ ys). \<not> sublist ''#shader'' l"
      using that(2) assms(5,6) content_lines_no_marker by auto
    ultimately show False
      using with_endl_no_marker by blast
  qed
  from assms(4) show ?thesis
  proof
    assume o: "sublist ''vertex'' m1 \<and> \<not> sublist ''vertex'' m2 \<and> sublist ''fragment'' m2"
    have a: "ParseShader_body (ty, ss) m1 = Inr (VERTEX, ss)" for ty ss
      using assms(2) o by (simp add: body_marker)
    have b: "ParseShader_body (ty, ss) m2 = Inr (FRAGMENT, ss)" for ty ss
      using assms(3) o by (simp add: body_marker)
    have "run_lines (m1 # (c1 # r1) @ m2 # (c2 # r2)) (NONE, [[], []])
            = Inr (FRAGMENT, [with_endl ?a, with_endl ?b])"
    proof (rule run_two_sections)
      show "ParseShader_body (NONE, [[], []]) m1 = Inr (VERTEX, [[], []])"
        by (rule a)
      show "run_lines (c1 # r1) (VERTEX, [[], []]) = Inr (VERTEX, [with_endl ?a, []])"
        using run_section_VERTEX [OF n1, of "[]" "[]"] by (simp only: k1 append_Nil)
      show "ParseShader_body (VERTEX, [with_endl ?a, []]) m2 = Inr (FRAGMENT, [with_endl ?a, []])"
        by (rule b)
      show "run_lines (c2 # r2) (FRAGMENT, [with_endl ?a, []])
              = Inr (FRAGMENT, [with_endl ?a, with_endl ?b])"
        using run_section_FRAGMENT [OF n2, of "with_endl ?a" "[]"] by (simp only: k2 append_Nil)
    qed
    with assms(1) have "ParseShader fs p
        = Inr \<lparr>VertexSource = with_endl ?a, FragmentSource = with_endl ?b\<rparr>"
      by (simp add: ParseShader_lines)
    moreover have "\<not> sublist m (with_endl ?a @ with_endl ?b)" if "sublist ''#shader'' m" for m
      using clean [OF that, of ?a ?b] by simp
    ultimately show ?thesis
      using with_endl_nonempty by auto
  next
    assume o: "sublist ''vertex'' m2 \<and> \<not> sublist ''vertex'' m1 \<and> sublist ''fragment'' m1"
    have a: "ParseShader_body (ty, ss) m1 = Inr (FRAGMENT, ss)" for ty ss
      using assms(2) o by (simp add: body_marker)
    have b: "ParseShader_body (ty, ss) m2 = Inr (VERTEX, ss)" for ty ss
      using assms(3) o by (simp add: body_marker)
    have "run_lines (m1 # (c1 # r1) @ m2 # (c2 # r2)) (NONE, [[], []])
            = Inr (VERTEX, [with_endl ?b, with_endl ?a])"
    proof (rule run_two_sections)
      show "ParseShader_body (NONE, [[], []]) m1 = Inr (FRAGMENT, [[], []])"
        by (rule a)
      show "run_lines (c1 # r1) (FRAGMENT, [[], []]) = Inr (FRAGMENT, [[], with_endl ?a])"
        using run_section_FRAGMENT [OF n1, of "[]" "[]"] by (simp only: k1 append_Nil)
      show "ParseShader_body (FRAGMENT, [[], with_endl ?a]) m2 = Inr (VERTEX, [[], with_endl ?a])"
        by (rule b)
      show "run_lines (c2 # r2) (VERTEX, [[], with_endl ?a])
              = Inr (VERTEX, [with_endl ?b, with_endl ?a])"
        using run_section_VERTEX [OF n2, of "[]" "with_endl ?a"] by (simp only: k2 append_Nil)
    qed
    with assms(1) have "ParseShader fs p
        = Inr \<lparr>VertexSource = with_endl ?b, FragmentSource = with_endl ?a\<rparr>"
      by (simp add: ParseShader_lines)
    moreover have "\<not> sublist m (with_endl ?b @ with_endl ?a)" if "sublist ''#shader'' m" for m
      using clean [OF that, of ?b ?a] by auto
    ultimately show ?thesis
      using with_endl_nonempty by auto
  qed
qed

theorem ParseShader_two_sections_witness:
  "\<exists>src. ParseShader (\<lambda>p. Some ''#shader vertex\<newline>V1\<newline>V2\<newline>#shader fragment\<newline>F1\<newline>'') ''f'' = Inr src
           \<and> VertexSource src \<noteq> [] \<and> FragmentSource src \<noteq> []
           \<and> (\<forall>m. sublist ''#shader'' m \<longrightarrow> \<not> sublist m (VertexSource src @ FragmentSource src))"
proof -
  let ?fs = "\<lambda>p::string. Some ''#shader vertex\<newline>V1\<newline>V2\<newline>#shader fragment\<newline>F1\<newline>''"
  have p: "lines_read (ifstream_open ?fs ''f'')
      = ''#shader vertex'' # ''V1'' # [''V2''] @ ''#shader fragment'' # ''F1'' # []"
    by (simp add: ifstream_open_def newline_def lines_read.simps)
  have m: "sublist ''#shader'' ''#shader vertex''" "sublist ''#shader'' ''#shader fragment''"
    by (simp_all add: sublist_code)
  have k: "(sublist ''vertex'' ''#shader vertex'' \<and> \<not> sublist ''vertex'' ''#shader fragment''
         \<and> sublist ''fragment'' ''#shader fragment'')
       \<or> (sublist ''vertex'' ''#shader fragment'' \<and> \<not> sublist ''vertex'' ''#shader vertex''
         \<and> sublist ''fragment'' ''#shader vertex'')"
    by (simp add: sublist_code)
  have c: "\<not> sublist ''#shader'' ''V1''" "\<not> sublist ''#shader'' ''F1''"
    by (simp_all add: sublist_code)
  have r: "\<forall>l\<in>set ([''V2''] @ []). \<not> section_marker l"
    by (simp add: section_marker_def sublist_code)
  show ?thesis
    by (rule ParseShader_two_sections [OF p m k c r])
qed

section \<open>Properties of the diagnostic wrapper, the compiler and the linker\<close>

lemma error_code_nonzero: "error_code x \<noteq> 0"
  by (cases x) simp_all

lemma GLClearError_drains:
  "GLClearError w =
     w\<lparr>calls := calls w @ replicate (Suc (length (errors w))) (Call ''glGetError'' []),
       errors := []\<rparr>"
proof (induction "errors w" arbitrary: w)
  case Nil
  then have "errors w = []" by simp
  then show ?case
    by (subst GLClearError.simps) (simp add: glGetError_def GL_NO_ERROR_def)
next
  case (Cons x xs)
  then have e: "errors w = x # xs" by simp
  let ?w' = "w\<lparr>calls := calls w @ [Call ''glGetError'' []], errors := xs\<rparr>"
  have "GLClearError w = GLClearError ?w'"
    by (subst GLClearError.simps) (simp add: glGetError_def GL_NO_ERROR_def e error_code_nonzero)
  also have "\<dots> = ?w'\<lparr>calls := calls ?w' @ replicate (Suc (length (errors ?w'))) (Call ''glGetError'' []),
       errors := []\<rparr>"
    by (rule Cons.hyps(1)) simp
  finally show ?case
    by (simp add: e replicate_append_same)
qed

lemma GLLogCall_clean:
  "errors w = [] \<Longrightarrow>
   GLLogCall function file line w = (True, w\<lparr>calls := calls w @ [Call ''glGetError'' []]\<rparr>)"
  by (simp add: GLLogCall_def glGetError_def GL_NO_ERROR_def)

lemma GLLogCall_error:
  "errors w = x # xs \<Longrightarrow>
   GLLogCall function file line w =
     (False,
      w\<lparr>calls := calls w @ [Call ''glGetError'' []], errors := xs,
        cout := cout w @ ''[OpenGL Error] ('' @ show_nat (unat (error_code x)) @ '') in file ''
          @ file @ '' on function '' @ function @ '' at line '' @ show_int line @ endl\<rparr>)"
  by (simp add: GLLogCall_def glGetError_def error_code_nonzero)

text \<open>
  C6. \<^verbatim>\<open>GLClearError\<close> fetches every pending error flag and leaves none. \<^verbatim>\<open>GLCall\<close> then
  runs the wrapped statement and fetches one flag: when the statement left no flag, the
  value of the statement is returned; when it left one, the message with the error code,
  the file, the source text of the statement and the line is written and the run ends in
  the trap. No error code is returned in either case.
\<close>

theorem GLCall_drain_call_trap:
  "GLClearError w =
     w\<lparr>calls := calls w @ replicate (Suc (length (errors w))) (Call ''glGetError'' []),
       errors := []\<rparr>
   \<and> (case x (GLClearError w) of
        (v, w2) \<Rightarrow>
          GLCall x function file line w =
            (case errors w2 of
               [] \<Rightarrow> Inr (v, w2\<lparr>calls := calls w2 @ [Call ''glGetError'' []]\<rparr>)
             | err # rest \<Rightarrow>
                 Inl (DebugBreak,
                      w2\<lparr>calls := calls w2 @ [Call ''glGetError'' []], errors := rest,
                         cout := cout w2 @ ''[OpenGL Error] ('' @ show_nat (unat (error_code err))
                           @ '') in file '' @ file @ '' on function '' @ function
                           @ '' at line '' @ show_int line @ endl\<rparr>)))"
proof -
  obtain v w2 where xw: "x (GLClearError w) = (v, w2)"
    by (cases "x (GLClearError w)")
  have "GLCall x function file line w =
            (case errors w2 of
               [] \<Rightarrow> Inr (v, w2\<lparr>calls := calls w2 @ [Call ''glGetError'' []]\<rparr>)
             | err # rest \<Rightarrow>
                 Inl (DebugBreak,
                      w2\<lparr>calls := calls w2 @ [Call ''glGetError'' []], errors := rest,
                         cout := cout w2 @ ''[OpenGL Error] ('' @ show_nat (unat (error_code err))
                           @ '') in file '' @ file @ '' on function '' @ function
                           @ '' at line '' @ show_int line @ endl\<rparr>))"
  proof (cases "errors w2")
    case Nil
    with xw show ?thesis
      by (simp add: GLCall_def GLLogCall_clean ASSERT_def)
  next
    case (Cons err rest)
    with xw show ?thesis
      by (simp add: GLCall_def GLLogCall_error ASSERT_def)
  qed
  then have "case x (GLClearError w) of
        (v, w2) \<Rightarrow>
          GLCall x function file line w =
            (case errors w2 of
               [] \<Rightarrow> Inr (v, w2\<lparr>calls := calls w2 @ [Call ''glGetError'' []]\<rparr>)
             | err # rest \<Rightarrow>
                 Inl (DebugBreak,
                      w2\<lparr>calls := calls w2 @ [Call ''glGetError'' []], errors := rest,
                         cout := cout w2 @ ''[OpenGL Error] ('' @ show_nat (unat (error_code err))
                           @ '') in file '' @ file @ '' on function '' @ function
                           @ '' at line '' @ show_int line @ endl\<rparr>))"
    by (simp only: xw prod.case)
  with GLClearError_drains [of w] show ?thesis
    by (rule conjI)
qed

theorem GLCall_drain_call_trap_witness:
  "GLCall (\<lambda>w. ((), w\<lparr>calls := calls w @ [Call ''glUniform4f'' [AInt 3, AData, AData, AData, AData]],
                        errors := errors w @ [GL_INVALID_VALUE]\<rparr>))
     ''glUniform4f(location, r, g, b, 1.0f)'' ''Application.cpp'' 205
     \<lparr>calls = [], errors = [GL_INVALID_ENUM], cout = [], cerr = []\<rparr>
   = Inl (DebugBreak,
          \<lparr>calls = [Call ''glGetError'' [], Call ''glGetError'' [],
                    Call ''glUniform4f'' [AInt 3, AData, AData, AData, AData],
                    Call ''glGetError'' []],
           errors = [],
           cout = ''[OpenGL Error] (1281) in file Application.cpp on function glUniform4f(location, r, g, b, 1.0f) at line 205\<newline>'',
           cerr = []\<rparr>)"
proof -
  let ?w = "\<lparr>calls = [], errors = [GL_INVALID_ENUM], cout = [], cerr = []\<rparr>"
  let ?x = "\<lambda>w. ((), w\<lparr>calls := calls w @ [Call ''glUniform4f'' [AInt 3, AData, AData, AData, AData]],
                        errors := errors w @ [GL_INVALID_VALUE]\<rparr>)"
  note t = GLCall_drain_call_trap
    [of ?w ?x "''glUniform4f(location, r, g, b, 1.0f)''" "''Application.cpp''" 205]
  from t have c: "GLClearError ?w
      = \<lparr>calls = [Call ''glGetError'' [], Call ''glGetError'' []], errors = [], cout = [], cerr = []\<rparr>"
    by simp
  from t [THEN conjunct2] show ?thesis
    unfolding c by (simp add: show_int_def digit_char_def endl_def newline_def)
qed

lemmas CompileShader_unfold =
  CompileShader_def glGetShaderiv_def glGetShaderInfoLog_def api_def api_uint_def Let_def

text \<open>
  \<open>h\<close> is the history up to the query of the compile status. When the driver created
  the shader, stored the status, and for a failed compilation stored a positive length and
  a log, CompileShader does the following. On status \<^verbatim>\<open>GL_FALSE\<close> it writes
  \<^verbatim>\<open>Failed to compile\<close> with the stage name and then the log to \<^verbatim>\<open>std::cerr\<close>, deletes the
  shader as its last call and returns 0. Otherwise it returns the nonzero handle, writes
  nothing and makes no further call.
\<close>

lemma CompileShader_outcome:
  fixes id :: "32 word" and len :: int
  assumes "id = ret_uint e (calls w @ [Call ''glCreateShader'' [AUInt type]])"
    and "id \<noteq> 0"
    and "h = calls w @ [Call ''glCreateShader'' [AUInt type],
                        Call ''glShaderSource'' [AUInt id, AInt 1, AStr (c_str source), AData],
                        Call ''glCompileShader'' [AUInt id],
                        Call ''glGetShaderiv'' [AUInt id, AUInt GL_COMPILE_STATUS]]"
    and "ret_param e h = Some result"
    and "ret_param e (h @ [Call ''glGetShaderiv'' [AUInt id, AUInt GL_INFO_LOG_LENGTH]]) = Some len"
    and "0 < len"
    and "ret_string e (h @ [Call ''glGetShaderiv'' [AUInt id, AUInt GL_INFO_LOG_LENGTH],
                            Call ''glGetShaderInfoLog'' [AUInt id, AInt len]]) = Some message"
  shows "(result = GL_FALSE \<longrightarrow>
            (\<exists>w'. CompileShader e type source w = Inr (0, w')
               \<and> cerr w' = cerr w @ ''Failed to compile ''
                    @ (if type = GL_VERTEX_SHADER then ''vertex'' else ''fragment'') @ endl
                    @ c_str message @ endl
               \<and> calls w' =
                    h @ [Call ''glGetShaderiv'' [AUInt id, AUInt GL_INFO_LOG_LENGTH],
                         Call ''glGetShaderInfoLog'' [AUInt id, AInt len],
                         Call ''glDeleteShader'' [AUInt id]]))
       \<and> (result \<noteq> GL_FALSE \<longrightarrow>
            (\<exists>w'. CompileShader e type source w = Inr (id, w')
               \<and> cerr w' = cerr w \<and> calls w' = h))"
  using assms by (simp add: CompileShader_unfold)

text \<open>
  C3 (the code departs from the claim). A compilation that fails with an info log of
  length 0: \<^verbatim>\<open>alloca(0)\<close> gives a buffer in which \<^verbatim>\<open>glGetShaderInfoLog\<close> stores nothing.
  CompileShader writes \<^verbatim>\<open>Failed to compile\<close> with the stage name and then reads the
  unwritten buffer in \<^verbatim>\<open>std::cerr << message\<close>. No log is written, the shader is not
  deleted and 0 is not returned.
\<close>

theorem CompileShader_empty_log_fault:
  fixes id :: "32 word"
  assumes "id = ret_uint e (calls w @ [Call ''glCreateShader'' [AUInt type]])"
    and "id \<noteq> 0"
    and "h = calls w @ [Call ''glCreateShader'' [AUInt type],
                        Call ''glShaderSource'' [AUInt id, AInt 1, AStr (c_str source), AData],
                        Call ''glCompileShader'' [AUInt id],
                        Call ''glGetShaderiv'' [AUInt id, AUInt GL_COMPILE_STATUS]]"
    and "ret_param e h = Some GL_FALSE"
    and "ret_param e (h @ [Call ''glGetShaderiv'' [AUInt id, AUInt GL_INFO_LOG_LENGTH]]) = Some 0"
  shows "\<exists>w'. CompileShader e type source w = Inl (UninitialisedRead, w')
           \<and> cerr w' = cerr w @ ''Failed to compile ''
                @ (if type = GL_VERTEX_SHADER then ''vertex'' else ''fragment'') @ endl
           \<and> calls w' =
                h @ [Call ''glGetShaderiv'' [AUInt id, AUInt GL_INFO_LOG_LENGTH],
                     Call ''glGetShaderInfoLog'' [AUInt id, AInt 0]]"
  using assms by (simp add: CompileShader_unfold)

theorem CompileShader_empty_log_fault_witness:
  "\<exists>w'. CompileShader silent_env GL_VERTEX_SHADER ''void main() {'' empty_world
           = Inl (UninitialisedRead, w')
       \<and> cerr w' = ''Failed to compile vertex\<newline>''
       \<and> calls w' =
           [Call ''glCreateShader'' [AUInt GL_VERTEX_SHADER],
            Call ''glShaderSource'' [AUInt 1, AInt 1, AStr ''void main() {'', AData],
            Call ''glCompileShader'' [AUInt 1],
            Call ''glGetShaderiv'' [AUInt 1, AUInt GL_COMPILE_STATUS],
            Call ''glGetShaderiv'' [AUInt 1, AUInt GL_INFO_LOG_LENGTH],
            Call ''glGetShaderInfoLog'' [AUInt 1, AInt 0]]"
  using CompileShader_empty_log_fault
    [of 1 silent_env empty_world GL_VERTEX_SHADER _ "''void main() {''", OF _ _ refl]
  by (simp add: silent_env_def failing_env_def empty_world_def GL_FALSE_def c_str_def
      endl_def newline_def)

text \<open>
  The other faults of CompileShader: \<^verbatim>\<open>glCreateShader\<close> returned 0, so that \<^verbatim>\<open>result\<close> is
  read without a value; and a negative length of the log.
\<close>

lemma CompileShader_no_object_fault:
  assumes "ret_uint e (calls w @ [Call ''glCreateShader'' [AUInt type]]) = 0"
  shows "\<exists>w'. CompileShader e type source w = Inl (UninitialisedRead, w') \<and> cerr w' = cerr w"
  using assms by (simp add: CompileShader_unfold)

lemma CompileShader_negative_length_fault:
  fixes id :: "32 word"
  assumes "id = ret_uint e (calls w @ [Call ''glCreateShader'' [AUInt type]])"
    and "id \<noteq> 0"
    and "h = calls w @ [Call ''glCreateShader'' [AUInt type],
                        Call ''glShaderSource'' [AUInt id, AInt 1, AStr (c_str source), AData],
                        Call ''glCompileShader'' [AUInt id],
                        Call ''glGetShaderiv'' [AUInt id, AUInt GL_COMPILE_STATUS]]"
    and "ret_param e h = Some GL_FALSE"
    and "ret_param e (h @ [Call ''glGetShaderiv'' [AUInt id, AUInt GL_INFO_LOG_LENGTH]]) = Some len"
    and "len < 0"
  shows "\<exists>w'. CompileShader e type source w = Inl (StackExhausted, w') \<and> cerr w' = cerr w"
  using assms by (simp add: CompileShader_unfold)

lemma CompileShader_outcome_example:
  "(\<exists>w'. CompileShader failing_env GL_FRAGMENT_SHADER ''void main() {'' empty_world = Inr (0, w')
       \<and> cerr w' = ''Failed to compile fragment\<newline>syntax error\<newline>''
       \<and> last (calls w') = Call ''glDeleteShader'' [AUInt 1])
   \<and> (\<exists>w'. CompileShader (failing_env\<lparr>ret_param := (\<lambda>h. Some 1)\<rparr>) GL_VERTEX_SHADER
              ''void main() {}'' empty_world = Inr (1, w')
       \<and> cerr w' = [])"
  using CompileShader_outcome [of 1 failing_env empty_world GL_FRAGMENT_SHADER _
      "''void main() {''" 0 13 "''syntax error''", OF _ _ refl]
    CompileShader_outcome [of 1 "failing_env\<lparr>ret_param := (\<lambda>h. Some 1)\<rparr>" empty_world
      GL_VERTEX_SHADER _ "''void main() {}''" 1 1 "''syntax error''", OF _ _ refl]
  by (auto simp: failing_env_def empty_world_def GL_FALSE_def GL_VERTEX_SHADER_def
      GL_FRAGMENT_SHADER_def GL_INFO_LOG_LENGTH_def GL_COMPILE_STATUS_def c_str_def
      endl_def newline_def)

text \<open>
  C2. Whatever the two compilations return, also 0, CreateShader attaches both results,
  links, validates, deletes both shaders and returns the program handle; after the
  compilations it makes exactly these six calls and writes nothing.
\<close>

theorem CreateShader_unconditional:
  assumes "(program, w1) = api_uint e (Call ''glCreateProgram'' []) w"
    and "CompileShader e GL_VERTEX_SHADER vertexShader w1 = Inr (vs, w2)"
    and "CompileShader e GL_FRAGMENT_SHADER fragmentShader w2 = Inr (fs, w3)"
  shows "\<exists>w'. CreateShader e vertexShader fragmentShader w = Inr (program, w')
       \<and> calls w' =
           calls w3 @ [Call ''glAttachShader'' [AUInt program, AUInt vs],
                       Call ''glAttachShader'' [AUInt program, AUInt fs],
                       Call ''glLinkProgram'' [AUInt program],
                       Call ''glValidateProgram'' [AUInt program],
                       Call ''glDeleteShader'' [AUInt vs],
                       Call ''glDeleteShader'' [AUInt fs]]
       \<and> cerr w' = cerr w3
       \<and> cout w' = cout w3"
  using assms(1) [symmetric] assms(2,3)
  by (simp add: CreateShader_def api_def Let_def)

theorem CreateShader_unconditional_witness:
  "\<exists>w2 w3 w'.
      CompileShader failing_env GL_VERTEX_SHADER ''void main() {''
        (snd (api_uint failing_env (Call ''glCreateProgram'' []) empty_world)) = Inr (0, w2)
    \<and> CompileShader failing_env GL_FRAGMENT_SHADER ''void main() {'' w2 = Inr (0, w3)
    \<and> CreateShader failing_env ''void main() {'' ''void main() {'' empty_world = Inr (1, w')
    \<and> calls w' =
         calls w3 @ [Call ''glAttachShader'' [AUInt 1, AUInt 0],
                     Call ''glAttachShader'' [AUInt 1, AUInt 0],
                     Call ''glLinkProgram'' [AUInt 1],
                     Call ''glValidateProgram'' [AUInt 1],
                     Call ''glDeleteShader'' [AUInt 0],
                     Call ''glDeleteShader'' [AUInt 0]]"
proof -
  let ?w1 = "snd (api_uint failing_env (Call ''glCreateProgram'' []) empty_world)"
  have p: "(1, ?w1) = api_uint failing_env (Call ''glCreateProgram'' []) empty_world"
    by (simp add: api_uint_def api_def failing_env_def empty_world_def)
  have c1: "calls ?w1 = [Call ''glCreateProgram'' []]"
    by (simp add: api_uint_def api_def failing_env_def empty_world_def)
  obtain w2 where v: "CompileShader failing_env GL_VERTEX_SHADER ''void main() {'' ?w1 = Inr (0, w2)"
    and c2: "length (calls w2) = 8"
    using c1 by (simp add: CompileShader_unfold failing_env_def GL_FALSE_def
        GL_INFO_LOG_LENGTH_def GL_COMPILE_STATUS_def)
  obtain w3 where f: "CompileShader failing_env GL_FRAGMENT_SHADER ''void main() {'' w2 = Inr (0, w3)"
    using c2 by (simp add: CompileShader_unfold failing_env_def GL_FALSE_def
        GL_INFO_LOG_LENGTH_def GL_COMPILE_STATUS_def)
  from CreateShader_unconditional [OF p v f] v f show ?thesis
    by blast
qed

text \<open>A fault of the first compilation ends CreateShader.\<close>

lemma CreateShader_fault:
  "CompileShader e GL_VERTEX_SHADER vertexShader
     (snd (api_uint e (Call ''glCreateProgram'' []) w)) = Inl fw \<Longrightarrow>
   CreateShader e vertexShader fragmentShader w = Inl fw"
  by (auto simp: CreateShader_def split: prod.splits)

text \<open>
  C9 (the code departs from the claim). When \<^verbatim>\<open>glfwInit\<close> fails, and when the window cannot
  be created, \<^verbatim>\<open>main\<close> returns -1 without writing anything to \<^verbatim>\<open>std::cerr\<close> (or to
  \<^verbatim>\<open>std::cout\<close>).
\<close>

theorem main_silent_init_failure:
  "(ret_int e (calls w @ [Call ''glfwInit'' []]) = 0 \<longrightarrow>
      (\<exists>w'. main e w = Some (Inr (- 1), w') \<and> cerr w' = cerr w \<and> cout w' = cout w))
   \<and> (ret_int e (calls w @ [Call ''glfwInit'' []]) \<noteq> 0
      \<and> \<not> ret_ptr e (calls w @ [Call ''glfwInit'' [],
             Call ''glfwCreateWindow'' [AInt 640, AInt 480, AStr ''Hello World'', AData, AData]]) \<longrightarrow>
      (\<exists>w'. main e w = Some (Inr (- 1), w') \<and> cerr w' = cerr w \<and> cout w' = cout w))"
  by (simp add: main_def api_int_def api_ptr_def api_def Let_def)

theorem main_silent_init_failure_witness:
  "(\<exists>w'. main (failing_env\<lparr>ret_int := (\<lambda>h. 0)\<rparr>) empty_world = Some (Inr (- 1), w') \<and> cerr w' = [] \<and> cout w' = [])
   \<and> (\<exists>w'. main (failing_env\<lparr>ret_int := (\<lambda>h. 1), ret_ptr := (\<lambda>h. False)\<rparr>) empty_world
          = Some (Inr (- 1), w') \<and> cerr w' = [] \<and> cout w' = [])"
  using main_silent_init_failure [of "failing_env\<lparr>ret_int := (\<lambda>h. 0)\<rparr>" empty_world]
    main_silent_init_failure [of "failing_env\<lparr>ret_int := (\<lambda>h. 1), ret_ptr := (\<lambda>h. False)\<rparr>" empty_world]
  by (simp add: failing_env_def empty_world_def)

text \<open>
  The other exits of \<^verbatim>\<open>main\<close>: a failure of \<^verbatim>\<open>glewInit\<close> is reported on \<^verbatim>\<open>std::cerr\<close>, and
  the value returned is 0 or -1.
\<close>

lemma main_glew_failure_reported:
  assumes "ret_int e (calls w @ [Call ''glfwInit'' []]) \<noteq> 0"
    and "ret_ptr e (calls w @ [Call ''glfwInit'' [],
             Call ''glfwCreateWindow'' [AInt 640, AInt 480, AStr ''Hello World'', AData, AData]])"
    and "ret_uint e (calls w @ [Call ''glfwInit'' [],
             Call ''glfwCreateWindow'' [AInt 640, AInt 480, AStr ''Hello World'', AData, AData],
             Call ''glfwMakeContextCurrent'' [AData], Call ''glfwSwapInterval'' [AInt 0],
             Call ''glewInit'' []]) \<noteq> GLEW_OK"
  shows "\<exists>w'. main e w = Some (Inr (- 1), w')
           \<and> cerr w' = cerr w @ ''[ERROR] Error initializing GLEW\<newline>''"
  using assms
  by (simp add: main_def api_int_def api_ptr_def api_uint_def api_def Let_def newline_def)

lemma main_exit_zero_or_minus_one:
  assumes "main e w = Some (Inr n, w')"
  shows "n = 0 \<or> n = - 1"
  using assms
  by (auto simp: main_def Let_def split: prod.splits if_splits sum.splits option.splits)

end
